(* ===== verification/Prelude.thy ===== *)
theory Prelude
  imports Complex_Main
begin

text \<open>
  Shared vocabulary of the development: the types that name the program's state
  (the memo table \<open>dp\<close> of \<^verbatim>\<open>src/Dynamic Interval/solution.js\<close>), the
  collection of equations used to unfold the evaluator, and generic facts on finite
  sums over natural ranges and index lists that the recurrence proofs share.
\<close>

section \<open>Types of the model\<close>

text \<open>
  JavaScript numbers that the program uses as loop indices and arguments are whole
  numbers; they are modelled as \<^typ>\<open>int\<close>. The values the function computes are
  modelled exactly, as \<^typ>\<open>rat\<close>: the program's IEEE doubles are approximations of
  these values (see the root theory for the error bounds that are proved).
\<close>

type_synonym memo_row = "int \<rightharpoonup> rat"
type_synonym memo = "int \<rightharpoonup> memo_row"

named_theorems memo_simps "equations that evaluate the memo-table operations"

section \<open>Finite sums\<close>

text \<open>Summation by parts with unit weights (Abel summation).\<close>

lemma sum_weighted_differences:
  fixes a :: "nat \<Rightarrow> 'a::comm_ring_1"
  shows "(\<Sum>k<m. (of_nat k + 1) * (a k - a (Suc k))) = (\<Sum>k<m. a k) - of_nat m * a m"
  by (induction m) (simp_all add: algebra_simps)

text \<open>The loop \<^verbatim>\<open>for (let i = k; i <= n; i++)\<close> as a list of indices: one step peels
  off the first index.\<close>

lemma sum_list_upto_step:
  "i \<le> j \<Longrightarrow> (\<Sum>x\<leftarrow>[i..j]. f x) = f i + (\<Sum>x\<leftarrow>[i + 1..j]. f x)"
  by (simp add: upto_rec1)

lemma sum_list_upto_nonneg:
  "(\<And>x. i \<le> x \<Longrightarrow> x \<le> j \<Longrightarrow> 0 \<le> f x) \<Longrightarrow> (0::'a::ordered_comm_monoid_add) \<le> (\<Sum>x\<leftarrow>[i..j]. f x)"
  by (rule sum_list_nonneg) auto

text \<open>A value enclosed in \<open>[lo, hi]\<close> is within \<open>e\<close> of \<open>d\<close> if the enclosure is.\<close>

lemma enclosure_within:
  fixes x :: rat
  assumes "lo \<le> x" "x \<le> hi" "d - e < lo" "hi < d + e"
  shows "\<bar>x - d\<bar> < e"
  using assms by linarith

end
