(* ===== verification/Recurrence.thy ===== *)
theory Recurrence
  imports Prelude
begin

text \<open>
  The recurrence that \<^verbatim>\<open>F(n, k)\<close> of \<^verbatim>\<open>src/Dynamic Interval/solution.js\<close>
  evaluates, stated as a pure function without the memo table (spec, section 4.1):
  the two guards in their order, then the sum over \<open>i = k .. n\<close> of
  \<open>1/(i+1) * F(n-1, i-1)\<close>. It is the reference against which the memoised
  evaluator (theory \<open>Evaluator\<close>) is proved, and the object of the mathematical
  facts of theory \<open>Distribution\<close>.
\<close>

function F_rec :: "int \<Rightarrow> int \<Rightarrow> rat" where
  "F_rec n k =
    (if k < 0 \<or> k > n then 0
     else if n = 1 then (if k = 0 \<or> k = 1 then 1 / 2 else 0)
     else (\<Sum>i\<leftarrow>[k..n]. 1 / (of_int i + 1) * F_rec (n - 1) (i - 1)))"
  by pat_completeness auto
termination
  by (relation "measure (\<lambda>(n, k). nat (n + 1))") auto

declare F_rec.simps [simp del]

section \<open>The equations by case\<close>

lemma F_rec_out_of_range [simp]:
  "k < 0 \<or> n < k \<Longrightarrow> F_rec n k = 0"
  by (subst F_rec.simps) auto

lemma F_rec_one [simp]:
  "F_rec 1 k = (if k = 0 \<or> k = 1 then 1 / 2 else 0)"
  by (subst F_rec.simps) auto

lemma F_rec_sum:
  "0 \<le> k \<Longrightarrow> k \<le> n \<Longrightarrow> n \<noteq> 1 \<Longrightarrow>
     F_rec n k = (\<Sum>i\<leftarrow>[k..n]. 1 / (of_int i + 1) * F_rec (n - 1) (i - 1))"
  by (subst F_rec.simps) auto

text \<open>
  Consecutive values of a row differ by one term of the sum: peeling the first index
  off the loop. This identity carries every mathematical fact about the recurrence.
\<close>

lemma F_rec_step:
  assumes "0 \<le> k" "k \<le> n" "n \<noteq> 1"
  shows "F_rec n k = F_rec n (k + 1) + F_rec (n - 1) (k - 1) / (of_int k + 1)"
proof -
  have "F_rec n k = 1 / (of_int k + 1) * F_rec (n - 1) (k - 1)
          + (\<Sum>i\<leftarrow>[k + 1..n]. 1 / (of_int i + 1) * F_rec (n - 1) (i - 1))"
    using assms by (simp add: F_rec_sum sum_list_upto_step)
  moreover have "(\<Sum>i\<leftarrow>[k + 1..n]. 1 / (of_int i + 1) * F_rec (n - 1) (i - 1)) = F_rec n (k + 1)"
    using assms by (cases "k + 1 \<le> n") (simp_all add: F_rec_sum)
  ultimately show ?thesis by simp
qed

lemma F_rec_nonneg:
  "0 \<le> F_rec n k"
proof (induction n k rule: F_rec.induct)
  case (1 n k)
  show ?case
  proof (cases "k < 0 \<or> n < k \<or> n = 1")
    case True
    then show ?thesis by auto
  next
    case False
    then have "F_rec n k = (\<Sum>i\<leftarrow>[k..n]. 1 / (of_int i + 1) * F_rec (n - 1) (i - 1))"
      by (simp add: F_rec_sum)
    also have "0 \<le> \<dots>"
    proof (rule sum_list_upto_nonneg)
      fix i assume "k \<le> i" "i \<le> n"
      with False "1.IH" [of i] show "0 \<le> 1 / (of_int i + 1) * F_rec (n - 1) (i - 1)"
        by simp
    qed
    finally show ?thesis .
  qed
qed

end
