(* ===== verification/Memo_Cache.thy ===== *)
theory Memo_Cache
  imports Prelude
begin

text \<open>
  The memo table \<^verbatim>\<open>dp\<close> of \<^verbatim>\<open>F(n, k, dp = {})\<close>: a JavaScript object of
  objects, \<^verbatim>\<open>dp[n][k]\<close>, modelled as a partial map of partial maps
  (\<^typ>\<open>memo\<close>). Its three operations are the three statements of the source that
  touch it: creating the row (line 5), reading an entry (line 6) and storing the sum
  (line 12). Reading or writing through a row that does not exist raises a
  \<^verbatim>\<open>TypeError\<close> in JavaScript; that is the \<open>Inl\<close> branch of both operations.
  The abstraction \<open>flat\<close> reads the nested table as one map keyed by the pair
  \<open>(n, k)\<close>, the alternative representation the spec allows (section 9); the
  operations refine the plain map operations on it. \<open>memo_consistent f\<close> is the
  memo invariant of any memoised function \<open>f\<close>: every stored entry is the value
  of \<open>f\<close> at its key.
\<close>

datatype js_error = TypeError

section \<open>Operations\<close>

text \<open>Line 5: \<^verbatim>\<open>if (!dp[n]) dp[n] = {};\<close> (a row object is never falsy).\<close>

definition ensure_row :: "int \<Rightarrow> memo \<Rightarrow> memo" where
  "ensure_row n dp = (case dp n of None \<Rightarrow> dp(n \<mapsto> Map.empty) | Some _ \<Rightarrow> dp)"

text \<open>Line 6: the read \<^verbatim>\<open>dp[n][k]\<close>; \<open>None\<close> is \<^verbatim>\<open>undefined\<close>.\<close>

definition cache_get :: "int \<Rightarrow> int \<Rightarrow> memo \<Rightarrow> js_error + rat option" where
  "cache_get n k dp = (case dp n of None \<Rightarrow> Inl TypeError | Some r \<Rightarrow> Inr (r k))"

text \<open>Line 12: the store \<^verbatim>\<open>dp[n][k] = sum\<close>.\<close>

definition cache_put :: "int \<Rightarrow> int \<Rightarrow> rat \<Rightarrow> memo \<Rightarrow> js_error + memo" where
  "cache_put n k v dp =
    (case dp n of None \<Rightarrow> Inl TypeError | Some r \<Rightarrow> Inr (dp(n \<mapsto> r(k \<mapsto> v))))"

section \<open>Abstraction and invariants\<close>

definition flat :: "memo \<Rightarrow> (int \<times> int \<rightharpoonup> rat)" where
  "flat dp = (\<lambda>(n, k). case dp n of None \<Rightarrow> None | Some r \<Rightarrow> r k)"

definition memo_consistent :: "(int \<Rightarrow> int \<Rightarrow> rat) \<Rightarrow> memo \<Rightarrow> bool" where
  "memo_consistent f dp \<longleftrightarrow> (\<forall>n k v. flat dp (n, k) = Some v \<longrightarrow> v = f n k)"

text \<open>\<open>memo_le dp dp'\<close>: \<open>dp'\<close> keeps every row of \<open>dp\<close> and every entry in it.\<close>

definition memo_le :: "memo \<Rightarrow> memo \<Rightarrow> bool" where
  "memo_le dp dp' \<longleftrightarrow> (\<forall>n r. dp n = Some r \<longrightarrow> (\<exists>r'. dp' n = Some r' \<and> r \<subseteq>\<^sub>m r'))"

section \<open>Lemmas\<close>

lemma ensure_row_present [memo_simps]:
  "\<exists>r. ensure_row n dp n = Some r"
  by (simp add: ensure_row_def split: option.split)

lemma cache_get_present [memo_simps]:
  "dp n = Some r \<Longrightarrow> cache_get n k dp = Inr (r k)"
  by (simp add: cache_get_def)

lemma cache_put_present [memo_simps]:
  "dp n = Some r \<Longrightarrow> cache_put n k v dp = Inr (dp(n \<mapsto> r(k \<mapsto> v)))"
  by (simp add: cache_put_def)

lemma flat_Some_iff:
  "flat dp (n, k) = Some v \<longleftrightarrow> (\<exists>r. dp n = Some r \<and> r k = Some v)"
  by (simp add: flat_def split: option.split)

lemma flat_ensure_row [memo_simps]:
  "flat (ensure_row n dp) = flat dp"
  by (rule ext) (auto simp: flat_def ensure_row_def split: option.split)

lemma flat_update_row:
  assumes "dp n = Some r"
  shows "flat (dp(n \<mapsto> r(k \<mapsto> v))) = (flat dp)((n, k) \<mapsto> v)"
proof (rule ext)
  fix p :: "int \<times> int"
  obtain a b where p: "p = (a, b)" by fastforce
  with assms show "flat (dp(n \<mapsto> r(k \<mapsto> v))) p = ((flat dp)((n, k) \<mapsto> v)) p"
    by (cases "a = n") (auto simp: flat_def)
qed

lemma memo_le_refl [intro, simp]:
  "memo_le dp dp"
  by (auto simp: memo_le_def)

lemma memo_le_trans [trans]:
  "memo_le dp1 dp2 \<Longrightarrow> memo_le dp2 dp3 \<Longrightarrow> memo_le dp1 dp3"
  unfolding memo_le_def by (meson map_le_trans)

lemma memo_le_dom:
  "memo_le dp dp' \<Longrightarrow> dom dp \<subseteq> dom dp'"
  by (auto simp: memo_le_def)

lemma memo_le_flat:
  assumes "memo_le dp dp'"
  shows "flat dp \<subseteq>\<^sub>m flat dp'"
proof (unfold map_le_def, intro ballI)
  fix p assume "p \<in> dom (flat dp)"
  then obtain n k v where p: "p = (n, k)" and "flat dp (n, k) = Some v"
    by (cases p) auto
  then obtain r where r: "dp n = Some r" "r k = Some v"
    by (auto simp: flat_Some_iff)
  with assms obtain r' where "dp' n = Some r'" "r \<subseteq>\<^sub>m r'"
    by (auto simp: memo_le_def)
  with r show "flat dp p = flat dp' p"
    by (auto simp: p flat_def map_le_def dom_def)
qed

lemma memo_le_ensure_row:
  "memo_le dp (ensure_row n dp)"
  by (auto simp: memo_le_def ensure_row_def split: option.split)

lemma memo_consistent_ensure_row:
  "memo_consistent f dp \<Longrightarrow> memo_consistent f (ensure_row n dp)"
  by (simp add: memo_consistent_def flat_ensure_row)

lemma flat_empty [simp]:
  "flat Map.empty = Map.empty"
  by (auto simp: flat_def)

lemma memo_consistent_empty [simp]:
  "memo_consistent f Map.empty"
  by (simp add: memo_consistent_def flat_def)

text \<open>Storing the function's own value keeps the table consistent and only extends it.\<close>

lemma memo_store_consistent:
  assumes "memo_consistent f dp" "dp n = Some r"
  shows "memo_consistent f (dp(n \<mapsto> r(k \<mapsto> f n k)))"
    and "memo_le dp (dp(n \<mapsto> r(k \<mapsto> f n k)))"
proof -
  show "memo_consistent f (dp(n \<mapsto> r(k \<mapsto> f n k)))"
    using assms by (auto simp: memo_consistent_def flat_update_row)
  have "r \<subseteq>\<^sub>m r(k \<mapsto> f n k)"
    using assms by (auto simp: map_le_def memo_consistent_def flat_Some_iff)
  then show "memo_le dp (dp(n \<mapsto> r(k \<mapsto> f n k)))"
    using assms(2) by (auto simp: memo_le_def)
qed

section \<open>Refinement of the flat map\<close>

text \<open>
  C13. After line 5 has run, the read of line 6 and the store of line 12 cannot raise
  and act on the flat view of the table exactly as lookup and update of one map keyed
  by \<open>(n, k)\<close>; line 5 itself does not change the flat view.
\<close>

theorem memo_ops_refine_flat:
  "flat (ensure_row n dp) = flat dp \<and>
   cache_get n k (ensure_row n dp) = Inr (flat dp (n, k)) \<and>
   (\<exists>dp'. cache_put n k v (ensure_row n dp) = Inr dp' \<and> flat dp' = (flat dp)((n, k) \<mapsto> v))"
proof -
  obtain r where r: "ensure_row n dp n = Some r"
    using ensure_row_present by blast
  have get: "cache_get n k (ensure_row n dp) = Inr (r k)"
    using r by (rule cache_get_present)
  have "flat (ensure_row n dp) (n, k) = r k"
    using r by (simp add: flat_def)
  then have "r k = flat dp (n, k)"
    by (simp add: flat_ensure_row)
  moreover have "cache_put n k v (ensure_row n dp) = Inr ((ensure_row n dp)(n \<mapsto> r(k \<mapsto> v)))"
    using r by (rule cache_put_present)
  moreover have "flat ((ensure_row n dp)(n \<mapsto> r(k \<mapsto> v))) = (flat dp)((n, k) \<mapsto> v)"
    using r by (simp add: flat_update_row flat_ensure_row)
  ultimately show ?thesis
    using get by (simp add: flat_ensure_row)
qed

end
