(* ===== verification/Evaluator.thy ===== *)
theory Evaluator
  imports Recurrence Memo_Cache
begin

text \<open>
  The function \<^verbatim>\<open>F(n, k, dp = {})\<close> of \<^verbatim>\<open>src/Dynamic Interval/solution.js\<close>
  (lines 1--14) as written: \<open>F_js\<close> is the function body, with the table passed in
  and returned, and \<open>F_loop\<close> is its \<^verbatim>\<open>for\<close> loop (lines 8--11) with the
  accumulator \<^verbatim>\<open>sum\<close> and the table as loop state. A raised exception is the
  \<open>Inl\<close> branch and propagates through both. \<open>F_call\<close> is a top-level call
  \<^verbatim>\<open>F(n, k)\<close>: the default parameter \<^verbatim>\<open>{}\<close> is evaluated afresh at every
  call in JavaScript, so each top-level call starts from the empty table.
  The recursion terminates for every pair of integers: the first measure is
  \<open>2 * nat n + 3\<close> on a call that passes the guards and \<open>2 * nat n + 2\<close> on the
  loop, the second is the loop's remaining iterations \<open>n + 1 - i\<close>.
  The lemmas prove the evaluator against the recurrence \<open>F_rec\<close> under the memo
  invariant, its totality, and the contract of the table.
\<close>

function F_js :: "int \<Rightarrow> int \<Rightarrow> memo \<Rightarrow> js_error + rat \<times> memo"
  and F_loop :: "int \<Rightarrow> int \<Rightarrow> rat \<Rightarrow> memo \<Rightarrow> js_error + rat \<times> memo" where
  "F_js n k dp =
    (if k < 0 \<or> k > n then Inr (0, dp)
     else if n = 1 then Inr (if k = 0 \<or> k = 1 then 1 / 2 else 0, dp)
     else
       (let dp1 = ensure_row n dp in
        case cache_get n k dp1 of
          Inl e \<Rightarrow> Inl e
        | Inr (Some v) \<Rightarrow> Inr (v, dp1)
        | Inr None \<Rightarrow>
            (case F_loop n k 0 dp1 of
               Inl e \<Rightarrow> Inl e
             | Inr (s, dp2) \<Rightarrow>
                 (case cache_put n k s dp2 of
                    Inl e \<Rightarrow> Inl e
                  | Inr dp3 \<Rightarrow> Inr (s, dp3)))))"
| "F_loop n i s dp =
    (if i \<le> n then
       (case F_js (n - 1) (i - 1) dp of
          Inl e \<Rightarrow> Inl e
        | Inr (v, dp') \<Rightarrow> F_loop n (i + 1) (s + 1 / (of_int i + 1) * v) dp')
     else Inr (s, dp))"
  by pat_completeness auto
termination
  by (relation "measures
       [\<lambda>x. case x of Inl (n, k, _) \<Rightarrow> if k < 0 \<or> k > n then 0 else 2 * nat n + 3
                   | Inr (n, i, _, _) \<Rightarrow> 2 * nat n + 2,
        \<lambda>x. case x of Inl _ \<Rightarrow> 0 | Inr (n, i, _, _) \<Rightarrow> nat (n + 1 - i)]") auto

declare F_js.simps [simp del] F_loop.simps [simp del]

definition F_call :: "int \<Rightarrow> int \<Rightarrow> js_error + rat" where
  "F_call n k = (case F_js n k Map.empty of Inl e \<Rightarrow> Inl e | Inr (v, _) \<Rightarrow> Inr v)"

section \<open>The equations by branch\<close>

lemma F_js_guard [simp]:
  "k < 0 \<or> n < k \<Longrightarrow> F_js n k dp = Inr (0, dp)"
  by (subst F_js.simps) simp

lemma F_js_one [simp]:
  "F_js 1 k dp = Inr (if k = 0 \<or> k = 1 then 1 / 2 else 0, dp)"
  by (subst F_js.simps) auto

lemma F_js_body:
  "0 \<le> k \<Longrightarrow> k \<le> n \<Longrightarrow> n \<noteq> 1 \<Longrightarrow>
     F_js n k dp =
       (let dp1 = ensure_row n dp in
        case cache_get n k dp1 of
          Inl e \<Rightarrow> Inl e
        | Inr (Some v) \<Rightarrow> Inr (v, dp1)
        | Inr None \<Rightarrow>
            (case F_loop n k 0 dp1 of
               Inl e \<Rightarrow> Inl e
             | Inr (s, dp2) \<Rightarrow>
                 (case cache_put n k s dp2 of
                    Inl e \<Rightarrow> Inl e
                  | Inr dp3 \<Rightarrow> Inr (s, dp3))))"
  by (subst F_js.simps) simp

lemma F_loop_stop [simp]:
  "n < i \<Longrightarrow> F_loop n i s dp = Inr (s, dp)"
  by (subst F_loop.simps) simp

lemma F_loop_step:
  "i \<le> n \<Longrightarrow> F_loop n i s dp =
     (case F_js (n - 1) (i - 1) dp of
        Inl e \<Rightarrow> Inl e
      | Inr (v, dp') \<Rightarrow> F_loop n (i + 1) (s + 1 / (of_int i + 1) * v) dp')"
  by (subst F_loop.simps) simp

section \<open>Correctness against the recurrence\<close>

abbreviation loop_sum :: "int \<Rightarrow> int \<Rightarrow> rat" where
  "loop_sum n i \<equiv> (\<Sum>j\<leftarrow>[i..n]. 1 / (of_int j + 1) * F_rec (n - 1) (j - 1))"

lemma F_js_F_loop_consistent:
  "memo_consistent F_rec dp \<Longrightarrow>
     \<exists>dp'. F_js n k dp = Inr (F_rec n k, dp') \<and> memo_consistent F_rec dp' \<and> memo_le dp dp'"
  "memo_consistent F_rec dp \<Longrightarrow>
     \<exists>dp'. F_loop n i s dp = Inr (s + loop_sum n i, dp') \<and> memo_consistent F_rec dp' \<and> memo_le dp dp'"
proof (induction n k dp and n i s dp rule: F_js_F_loop.induct)
  case (1 n k dp)
  show ?case
  proof (cases "k < 0 \<or> n < k \<or> n = 1")
    case True
    with "1.prems" show ?thesis by auto
  next
    case False
    define dp1 where "dp1 = ensure_row n dp"
    obtain r where r: "dp1 n = Some r"
      using ensure_row_present dp1_def by blast
    have c1: "memo_consistent F_rec dp1" and le1: "memo_le dp dp1"
      using "1.prems" by (simp_all add: dp1_def memo_consistent_ensure_row memo_le_ensure_row)
    show ?thesis
    proof (cases "r k")
      case (Some v)
      with c1 r have "v = F_rec n k"
        by (auto simp: memo_consistent_def flat_Some_iff)
      with False Some r c1 le1 show ?thesis
        by (auto simp: F_js_body dp1_def [symmetric] memo_simps)
    next
      case None
      with False r "1.IH" [OF _ _ dp1_def] c1 obtain dp2 where
        loop: "F_loop n k 0 dp1 = Inr (loop_sum n k, dp2)" and
        c2: "memo_consistent F_rec dp2" and le2: "memo_le dp1 dp2"
        by (auto simp: cache_get_present)
      have sum: "loop_sum n k = F_rec n k"
        using False by (simp add: F_rec_sum)
      from le2 r obtain r2 where r2: "dp2 n = Some r2"
        by (auto simp: memo_le_def)
      note store = memo_store_consistent [OF c2 r2, of k]
      have "memo_le dp (dp2(n \<mapsto> r2(k \<mapsto> F_rec n k)))"
        using le1 le2 store(2) by (blast intro: memo_le_trans)
      with False None r loop sum r2 store(1) show ?thesis
        by (auto simp: F_js_body dp1_def [symmetric] memo_simps)
    qed
  qed
next
  case (2 n i s dp)
  show ?case
  proof (cases "i \<le> n")
    case False
    with "2.prems" show ?thesis by simp
  next
    case True
    with "2.IH"(1) "2.prems" obtain dp1 where
      call: "F_js (n - 1) (i - 1) dp = Inr (F_rec (n - 1) (i - 1), dp1)" and
      c1: "memo_consistent F_rec dp1" and le1: "memo_le dp dp1"
      by blast
    with True "2.IH"(2) [OF True call] obtain dp2 where
      rest: "F_loop n (i + 1) (s + 1 / (of_int i + 1) * F_rec (n - 1) (i - 1)) dp1
               = Inr (s + 1 / (of_int i + 1) * F_rec (n - 1) (i - 1) + loop_sum n (i + 1), dp2)" and
      c2: "memo_consistent F_rec dp2" and le2: "memo_le dp1 dp2"
      by fastforce
    have "s + loop_sum n i = s + 1 / (of_int i + 1) * F_rec (n - 1) (i - 1) + loop_sum n (i + 1)"
      using True by (simp add: sum_list_upto_step)
    with True call rest c2 le1 le2 show ?thesis
      by (auto simp: F_loop_step intro: memo_le_trans)
  qed
qed
section \<open>Totality: the TypeError branches are unreachable\<close>

lemma F_js_F_loop_total:
  "\<exists>v dp'. F_js n k dp = Inr (v, dp') \<and> dom dp \<subseteq> dom dp'"
  "\<exists>v dp'. F_loop n i s dp = Inr (v, dp') \<and> dom dp \<subseteq> dom dp'"
proof (induction n k dp and n i s dp rule: F_js_F_loop.induct)
  case (1 n k dp)
  show ?case
  proof (cases "k < 0 \<or> n < k \<or> n = 1")
    case True
    then show ?thesis by auto
  next
    case False
    define dp1 where "dp1 = ensure_row n dp"
    obtain r where r: "dp1 n = Some r"
      using ensure_row_present dp1_def by blast
    have d1: "dom dp \<subseteq> dom dp1"
      by (simp add: dp1_def memo_le_dom memo_le_ensure_row)
    show ?thesis
    proof (cases "r k")
      case (Some v)
      with False r d1 show ?thesis
        by (auto simp: F_js_body dp1_def [symmetric] memo_simps)
    next
      case None
      with False r "1.IH" [OF _ _ dp1_def] obtain s dp2 where
        loop: "F_loop n k 0 dp1 = Inr (s, dp2)" and d2: "dom dp1 \<subseteq> dom dp2"
        by (auto simp: cache_get_present)
      with r obtain r2 where r2: "dp2 n = Some r2"
        by blast
      with False None r loop d1 d2 show ?thesis
        by (auto simp: F_js_body dp1_def [symmetric] memo_simps)
    qed
  qed
next
  case (2 n i s dp)
  show ?case
  proof (cases "i \<le> n")
    case False
    then show ?thesis by simp
  next
    case True
    with "2.IH"(1) obtain v dp1 where
      call: "F_js (n - 1) (i - 1) dp = Inr (v, dp1)" and d1: "dom dp \<subseteq> dom dp1"
      by blast
    with True "2.IH"(2) [OF True call] d1 show ?thesis
      by (auto simp: F_loop_step)
  qed
qed

section \<open>Which entries a call can create\<close>

abbreviation memo_keys :: "memo \<Rightarrow> (int \<times> int) set" where
  "memo_keys dp \<equiv> dom (flat dp)"

lemma F_js_F_loop_keys:
  "F_js n k dp = Inr (v, dp') \<Longrightarrow>
     memo_keys dp' \<subseteq> memo_keys dp \<union> {(m, j). 0 \<le> j \<and> j \<le> m \<and> m \<le> n \<and> m \<noteq> 1}"
  "F_loop n i s dp = Inr (v, dp') \<Longrightarrow>
     memo_keys dp' \<subseteq> memo_keys dp \<union> {(m, j). 0 \<le> j \<and> j \<le> m \<and> m < n \<and> m \<noteq> 1}"
proof (induction n k dp and n i s dp arbitrary: v dp' and v dp' rule: F_js_F_loop.induct)
  case (1 n k dp)
  show ?case
  proof (cases "k < 0 \<or> n < k \<or> n = 1")
    case True
    with "1.prems" show ?thesis by auto
  next
    case False
    define dp1 where "dp1 = ensure_row n dp"
    obtain r where r: "dp1 n = Some r"
      using ensure_row_present dp1_def by blast
    have k1: "memo_keys dp1 = memo_keys dp"
      by (simp add: dp1_def flat_ensure_row)
    show ?thesis
    proof (cases "r k")
      case (Some w)
      with False r k1 "1.prems" show ?thesis
        by (auto simp: F_js_body dp1_def [symmetric] memo_simps)
    next
      case None
      obtain s dp2 where loop: "F_loop n k 0 dp1 = Inr (s, dp2)"
        using F_js_F_loop_total(2) by blast
      with False None r "1.IH" [OF _ _ dp1_def] have
        k2: "memo_keys dp2 \<subseteq> memo_keys dp1 \<union> {(m, j). 0 \<le> j \<and> j \<le> m \<and> m < n \<and> m \<noteq> 1}"
        by (auto simp: cache_get_present)
      obtain r2 where r2: "dp2 n = Some r2"
        using F_js_F_loop_total(2) [of n k 0 dp1] loop r by force
      with False None r loop "1.prems" have
        "dp' = dp2(n \<mapsto> r2(k \<mapsto> s))"
        by (auto simp: F_js_body dp1_def [symmetric] memo_simps)
      with r2 have "memo_keys dp' = insert (n, k) (memo_keys dp2)"
        by (simp add: flat_update_row)
      with k1 k2 False show ?thesis
        by auto
    qed
  qed
next
  case (2 n i s dp)
  show ?case
  proof (cases "i \<le> n")
    case False
    with "2.prems" show ?thesis by simp
  next
    case True
    obtain w dp1 where call: "F_js (n - 1) (i - 1) dp = Inr (w, dp1)"
      using F_js_F_loop_total(1) by blast
    with True "2.IH"(1) [OF True call] "2.IH"(2) [OF True call refl, of v dp'] "2.prems"
    show ?thesis
      by (fastforce simp: F_loop_step)
  qed
qed

section \<open>Top-level call with the default table\<close>

lemma F_call_value [simp]:
  "F_call n k = Inr (F_rec n k)"
  using F_js_F_loop_consistent(1) [OF memo_consistent_empty, of n k]
  by (auto simp: F_call_def)

section \<open>Properties of the evaluator\<close>

text \<open>
  C1. The call \<^verbatim>\<open>F(n, k)\<close> with the default empty table never raises and returns
  the value of the recurrence for every pair of integers, and the table it has built
  when it returns holds only correct entries: memoised and unmemoised evaluation agree.
\<close>

theorem F_call_correct:
  "F_call n k = Inr (F_rec n k) \<and>
   (\<exists>dp'. F_js n k Map.empty = Inr (F_rec n k, dp') \<and> memo_consistent F_rec dp')"
  using F_js_F_loop_consistent(1) [OF memo_consistent_empty, of n k] by auto

text \<open>
  C2. Memo invariant: started on any table whose entries are all correct, a call
  returns the recurrence's value and leaves a table whose entries are all correct,
  which keeps every row and every entry it was given.
\<close>

theorem F_js_keeps_memo_consistent:
  assumes "memo_consistent F_rec dp"
  shows "\<exists>dp'. F_js n k dp = Inr (F_rec n k, dp') \<and> memo_consistent F_rec dp' \<and>
           flat dp \<subseteq>\<^sub>m flat dp' \<and> dom dp \<subseteq> dom dp'"
proof -
  obtain dp' where "F_js n k dp = Inr (F_rec n k, dp')" "memo_consistent F_rec dp'"
    "memo_le dp dp'"
    using F_js_F_loop_consistent(1) [OF assms, of n k] by blast
  then show ?thesis
    using memo_le_flat memo_le_dom by blast
qed

theorem F_js_keeps_memo_consistent_witness:
  "memo_consistent F_rec [2 \<mapsto> [0 \<mapsto> 5 / 12]] \<and>
   (\<exists>dp'. F_js 3 0 [2 \<mapsto> [0 \<mapsto> 5 / 12]] = Inr (F_rec 3 0, dp') \<and>
      memo_consistent F_rec dp' \<and> flat [2 \<mapsto> [0 \<mapsto> 5 / 12]] \<subseteq>\<^sub>m flat dp' \<and>
      dom [2 \<mapsto> [0 \<mapsto> 5 / 12]] \<subseteq> dom dp')"
proof -
  have "F_rec 2 0 = 5 / 12" by code_simp
  then have c: "memo_consistent F_rec [2 \<mapsto> [0 \<mapsto> 5 / 12]]"
    by (auto simp: memo_consistent_def flat_Some_iff split: if_splits)
  show ?thesis
    using c F_js_keeps_memo_consistent [OF c, of 3 0] by simp
qed

text \<open>
  C3. No call raises, whatever table it is given: the \<^verbatim>\<open>TypeError\<close> of reading
  or writing \<^verbatim>\<open>dp[n][k]\<close> through a missing row (lines 6 and 12) cannot happen,
  because line 5 creates the row and no call removes one. The function is total: the
  recursion terminates for all integer arguments, \<open>n \<le> 0\<close> included.
\<close>

theorem F_js_never_raises:
  "\<exists>v dp'. F_js n k dp = Inr (v, dp')"
  using F_js_F_loop_total(1) by blast

text \<open>
  C7. The guard and base paths (lines 2 and 3) return the recurrence's value and leave
  the table untouched: no row is created for an out-of-range index or for \<open>n = 1\<close>.
\<close>

theorem F_js_guard_paths:
  "k < 0 \<or> n < k \<or> n = 1 \<Longrightarrow> F_js n k dp = Inr (F_rec n k, dp)"
  by auto

theorem F_js_guard_paths_witness:
  "F_js 1 0 Map.empty = Inr (F_rec 1 0, Map.empty) \<and> F_rec 1 0 = 1 / 2"
  using F_js_guard_paths [of 0 1 Map.empty] by simp

text \<open>
  C6. A cache hit (line 6) returns the stored value at once and changes nothing. The
  code trusts the table: a caller that passes a table with a wrong entry gets that
  entry back (the witness stores 7 for \<open>F(5, 2)\<close>).
\<close>

theorem F_js_cache_hit:
  assumes "0 \<le> k" "k \<le> n" "n \<noteq> 1" "dp n = Some r" "r k = Some v"
  shows "F_js n k dp = Inr (v, dp)"
proof -
  have "ensure_row n dp = dp"
    using assms(4) by (simp add: ensure_row_def)
  with assms show ?thesis
    by (simp add: F_js_body cache_get_present)
qed

theorem F_js_cache_hit_witness:
  "F_js 5 2 [5 \<mapsto> [2 \<mapsto> 7]] = Inr (7, [5 \<mapsto> [2 \<mapsto> 7]]) \<and> F_rec 5 2 \<noteq> 7"
proof -
  have "F_rec 5 2 = 47617 / 259200" by code_simp
  then show ?thesis
    using F_js_cache_hit [of 2 5 "[5 \<mapsto> [2 \<mapsto> 7]]" "[2 \<mapsto> 7]" 7] by simp
qed

text \<open>
  C5. Every call that passes the guards with \<open>n \<noteq> 1\<close> leaves its result stored in
  \<^verbatim>\<open>dp[n][k]\<close> (line 12), so each pair is summed at most once while the table
  is shared (together with C5).
\<close>

theorem F_js_stores_result:
  assumes "0 \<le> k" "k \<le> n" "n \<noteq> 1" "F_js n k dp = Inr (v, dp')"
  shows "flat dp' (n, k) = Some v"
proof -
  define dp1 where "dp1 = ensure_row n dp"
  obtain r where r: "dp1 n = Some r"
    using ensure_row_present dp1_def by blast
  show ?thesis
  proof (cases "r k")
    case (Some w)
    with assms r show ?thesis
      by (auto simp: F_js_body dp1_def [symmetric] memo_simps flat_Some_iff)
  next
    case None
    obtain s dp2 where loop: "F_loop n k 0 dp1 = Inr (s, dp2)" and "dom dp1 \<subseteq> dom dp2"
      using F_js_F_loop_total(2) by blast
    with r obtain r2 where r2: "dp2 n = Some r2"
      by blast
    with assms None r loop show ?thesis
      by (auto simp: F_js_body dp1_def [symmetric] memo_simps
          flat_update_row)
  qed
qed

theorem F_js_stores_result_witness:
  "\<exists>v dp'. F_js 2 0 Map.empty = Inr (v, dp') \<and> flat dp' (2, 0) = Some v"
proof -
  obtain v dp' where r: "F_js 2 0 Map.empty = Inr (v, dp')"
    using F_js_F_loop_total(1) by blast
  then have "flat dp' (2, 0) = Some v"
    by (rule F_js_stores_result [rotated 3]) simp_all
  with r show ?thesis by blast
qed

text \<open>
  C8. A top-level call builds a table whose keys are pairs \<open>(m, j)\<close> with
  \<open>0 \<le> j \<le> m \<le> n\<close> and \<open>m \<noteq> 1\<close>, so at most \<open>(n + 1)\<^sup>2\<close> entries:
  the memoised recursion does polynomial work, as the spec requires.
\<close>

theorem F_js_table_bounded:
  "\<exists>v dp'. F_js n k Map.empty = Inr (v, dp') \<and>
     memo_keys dp' \<subseteq> {(m, j). 0 \<le> j \<and> j \<le> m \<and> m \<le> n \<and> m \<noteq> 1} \<and>
     card (memo_keys dp') \<le> (nat n + 1)\<^sup>2"
proof -
  obtain v dp' where r: "F_js n k Map.empty = Inr (v, dp')"
    using F_js_F_loop_total(1) by blast
  have keys: "memo_keys dp' \<subseteq> {(m, j). 0 \<le> j \<and> j \<le> m \<and> m \<le> n \<and> m \<noteq> 1}"
    using F_js_F_loop_keys(1) [OF r] by simp
  also have "\<dots> \<subseteq> {0..n} \<times> {0..n}"
    by auto
  finally have "card (memo_keys dp') \<le> card ({0..n} \<times> {0..n})"
    by (rule card_mono [rotated]) simp
  also have "\<dots> = nat (n + 1) * nat (n + 1)"
    by (simp add: card_cartesian_product)
  also have "\<dots> \<le> (nat n + 1) * (nat n + 1)"
  proof -
    have "nat (n + 1) \<le> nat n + 1"
      by arith
    from this this show ?thesis
      by (rule mult_le_mono)
  qed
  finally show ?thesis
    unfolding power2_eq_square using r keys by blast
qed

end
