(* ===== verification/Table.thy ===== *)
theory Table
  imports Recurrence
begin

text \<open>
  Certified evaluation of the recurrence for large arguments. The exact values have
  numerators of about ninety digits at \<open>n = 21\<close>, too large to evaluate with rational
  arithmetic inside the kernel; instead, whole rows \<open>c * F(n, 0), \<dots>, c * F(n, n)\<close>
  are computed bottom-up in integers with floor division, which gives lower bounds
  for any factor \<open>c\<close>. With \<open>c = 2^60\<close> they are lower bounds of \<open>2^60 * F\<close>;
  with \<open>c = -2^60\<close>, negated, upper bounds. A row is the suffix sums of the loop's
  terms \<open>F(n-1, i-1)/(i+1)\<close>, the recurrence computed from \<open>i = n\<close> downwards.
\<close>

fun suffix_sums :: "'a::monoid_add list \<Rightarrow> 'a list" where
  "suffix_sums [] = []"
| "suffix_sums (x # xs) = (case suffix_sums xs of [] \<Rightarrow> [x] | s # ss \<Rightarrow> (x + s) # s # ss)"

definition floor_next :: "int list \<Rightarrow> int list" where
  "floor_next r = suffix_sums (0 # map2 (\<lambda>v i. v div (int i + 2)) r [0..<length r])"

text \<open>\<open>bound_row c m\<close> is row \<open>n = m + 1\<close>, scaled by \<open>c\<close> and rounded down.\<close>

fun bound_row :: "int \<Rightarrow> nat \<Rightarrow> int list" where
  "bound_row c 0 = [c div 2, c div 2]"
| "bound_row c (Suc m) = floor_next (bound_row c m)"

lemma length_suffix_sums [simp]:
  "length (suffix_sums xs) = length xs"
  by (induction xs) (auto split: list.split)

lemma nth_suffix_sums:
  "j < length xs \<Longrightarrow> suffix_sums xs ! j = sum_list (drop j xs)"
proof (induction xs arbitrary: j)
  case Nil
  then show ?case by simp
next
  case (Cons x xs)
  show ?case
  proof (cases xs)
    case Nil
    with Cons.prems show ?thesis by simp
  next
    case (Cons y ys)
    then have "suffix_sums xs \<noteq> []"
      using length_suffix_sums [of xs] by auto
    then obtain s ss where ss: "suffix_sums xs = s # ss"
      by (cases "suffix_sums xs") auto
    with Cons.IH [of 0] have "s = sum_list xs"
      using \<open>xs = y # ys\<close> by simp
    with ss Cons.IH Cons.prems show ?thesis
      by (cases j) auto
  qed
qed

lemma length_floor_next [simp]:
  "length (floor_next r) = Suc (length r)"
  by (simp add: floor_next_def del: suffix_sums.simps)

lemma length_bound_row [simp]:
  "length (bound_row c m) = m + 2"
  by (induction m) simp_all

lemma of_int_div_le:
  "(of_int (a div d) :: rat) \<le> of_int a / of_int d"
  by (metis floor_divide_of_int_eq of_int_floor_le)

text \<open>One row step keeps the lower bound: downward induction over the suffix.\<close>

lemma floor_next_le:
  assumes len: "length r = N + 1" and N: "1 \<le> N"
    and row: "\<And>i. i \<le> N \<Longrightarrow> of_int (r ! i) \<le> of_int c * F_rec (int N) (int i)"
    and j: "j \<le> N + 1"
  shows "of_int (floor_next r ! j) \<le> of_int c * F_rec (int N + 1) (int j)"
proof -
  define t where "t = 0 # map2 (\<lambda>v i. v div (int i + 2)) r [0..<length r]"
  have lt: "length t = N + 2"
    using len by (simp add: t_def)
  have tb: "of_int (t ! i) \<le> of_int c * F_rec (int N) (int i - 1) / (of_int (int i) + 1)"
    if "i \<le> N + 1" for i
  proof (cases i)
    case 0
    then show ?thesis by (simp add: t_def)
  next
    case (Suc i')
    with that len have "t ! i = r ! i' div (int i' + 2)"
      by (simp add: t_def del: upt_Suc)
    then have "of_int (t ! i) \<le> (of_int (r ! i') / (of_int (int i') + 2) :: rat)"
      using of_int_div_le [of "r ! i'" "int i' + 2"] by simp
    also have "\<dots> \<le> of_int c * F_rec (int N) (int i') / (of_int (int i') + 2)"
      using row [of i'] Suc that by (simp add: divide_right_mono)
    finally show ?thesis
      using Suc by (simp add: add.commute)
  qed
  from j have "j \<le> N + 2"
    by simp
  then have "of_int (sum_list (drop j t)) \<le> of_int c * F_rec (int N + 1) (int j)"
  proof (induction j rule: inc_induct)
    case base
    show ?case using lt by simp
  next
    case (step j)
    then have "drop j t = t ! j # drop (Suc j) t"
      using lt by (simp add: Cons_nth_drop_Suc)
    then have "of_int (sum_list (drop j t))
        = of_int (t ! j) + of_int (sum_list (drop (Suc j) t))"
      by simp
    also have "\<dots> \<le> of_int c * F_rec (int N) (int j - 1) / (of_int (int j) + 1)
        + of_int c * F_rec (int N + 1) (int (Suc j))"
      using step tb [of j] by (intro add_mono) simp_all
    also have "\<dots> = of_int c * F_rec (int N + 1) (int j)"
      using F_rec_step [of "int j" "int N + 1"] step N by (simp add: algebra_simps)
    finally show ?case .
  qed
  then show ?thesis
    using j lt by (simp add: floor_next_def t_def [symmetric] nth_suffix_sums)
qed

lemma bound_row_le:
  "j \<le> m + 1 \<Longrightarrow> of_int (bound_row c m ! j) \<le> of_int c * F_rec (int m + 1) (int j)"
proof (induction m arbitrary: j)
  case 0
  then have "j = 0 \<or> j = 1" by auto
  with of_int_div_le [of c 2] show ?case by auto
next
  case (Suc m)
  have "of_int (floor_next (bound_row c m) ! j) \<le> of_int c * F_rec (int (m + 1) + 1) (int j)"
    by (rule floor_next_le) (use Suc in \<open>simp_all add: add.commute\<close>)
  then show ?case by (simp add: add.commute)
qed

text \<open>With \<open>c = 2^p\<close> and \<open>c = -2^p\<close> the rows enclose the recurrence.\<close>

lemma F_rec_enclosure:
  assumes "j \<le> m + 1"
  shows "of_int (bound_row (2 ^ p) m ! j) / 2 ^ p \<le> F_rec (int m + 1) (int j)"
    and "F_rec (int m + 1) (int j) \<le> - of_int (bound_row (- (2 ^ p)) m ! j) / 2 ^ p"
  using bound_row_le [OF assms, of "2 ^ p"] bound_row_le [OF assms, of "- (2 ^ p)"]
  by (simp_all add: field_simps)

end
