(* ===== verification/Program.thy ===== *)
theory Program
  imports Evaluator Table
begin

text \<open>
  The top level of \<^verbatim>\<open>src/Dynamic Interval/solution.js\<close> (lines 16--18): two
  calls, each with its own fresh table, whose results are printed. An exception in the
  first call would end the program before the second. The printing itself (IEEE
  double to decimal text) is not modelled; the claims compare the exact values the
  calls return with the decimals the source comments and the spec give, within the
  spec's tolerances.
\<close>

definition main_program :: "js_error + rat list" where
  "main_program =
    (case F_call 21 3 of
       Inl e \<Rightarrow> Inl e
     | Inr a \<Rightarrow> (case F_call 13 9 of Inl e \<Rightarrow> Inl e | Inr b \<Rightarrow> Inr [a, b]))"

lemma main_program_values:
  "main_program = Inr [F_rec 21 3, F_rec 13 9]"
  by (simp add: main_program_def)

lemma F_rec_21_3_enclosure:
  "70689303524934738 / 2 ^ 60 \<le> F_rec 21 3 \<and> F_rec 21 3 \<le> 70689303524934876 / 2 ^ 60"
proof -
  have lo: "bound_row (2 ^ 60) 20 ! 3 = 70689303524934738" by code_simp
  have hi: "bound_row (- (2 ^ 60)) 20 ! 3 = - 70689303524934876" by code_simp
  show ?thesis
    using F_rec_enclosure [of 3 20 60] lo hi by simp
qed

lemma F_rec_13_9_enclosure:
  "1083412854693 / 2 ^ 60 \<le> F_rec 13 9 \<and> F_rec 13 9 \<le> 1083412854698 / 2 ^ 60"
proof -
  have lo: "bound_row (2 ^ 60) 12 ! 9 = 1083412854693" by code_simp
  have hi: "bound_row (- (2 ^ 60)) 12 ! 9 = - 1083412854698" by code_simp
  show ?thesis
    using F_rec_enclosure [of 9 12 60] lo hi by simp
qed

text \<open>
  C12. The program prints two values, and they are within the spec's tolerances of the
  decimals in the source comments: \<^verbatim>\<open>F(21, 3)\<close> within \<open>10\<^sup>-\<^sup>9\<close> of
  0.061313197162577215 and \<^verbatim>\<open>F(13, 9)\<close> within \<open>10\<^sup>-\<^sup>1\<^sup>2\<close> of
  9.397108566079095e-7.
\<close>

theorem main_program_outputs:
  "\<exists>a b. main_program = Inr [a, b] \<and>
     \<bar>a - 61313197162577215 / 10 ^ 18\<bar> < 1 / 10 ^ 9 \<and>
     \<bar>b - 9397108566079095 / 10 ^ 22\<bar> < 1 / 10 ^ 12"
proof -
  have a: "\<bar>F_rec 21 3 - 61313197162577215 / 10 ^ 18\<bar> < 1 / 10 ^ 9"
    by (rule enclosure_within [of "70689303524934738 / 2 ^ 60" _ "70689303524934876 / 2 ^ 60"])
      (use F_rec_21_3_enclosure in simp_all)
  have b: "\<bar>F_rec 13 9 - 9397108566079095 / 10 ^ 22\<bar> < 1 / 10 ^ 12"
    by (rule enclosure_within [of "1083412854693 / 2 ^ 60" _ "1083412854698 / 2 ^ 60"])
      (use F_rec_13_9_enclosure in simp_all)
  show ?thesis
    using a b by (simp add: main_program_values)
qed

end
