(* ===== verification/Distribution.thy ===== *)
theory Distribution
  imports Recurrence
begin

text \<open>
  Mathematical facts about the recurrence \<open>F_rec\<close>: for every \<open>n \<ge> 1\<close> the row
  \<open>F(n, 0), \<dots>, F(n, n)\<close> is a probability distribution (non-negative, summing to 1),
  it is non-increasing in \<open>k\<close>, its first two entries are equal, and every value is
  at most \<open>1/2\<close>; rows with \<open>n \<le> 0\<close> are 0. The exact row sum is a fact of the
  recurrence only (the program's double sums miss 1 by rounding); it serves here to
  bound the values, a bound that leaves a wide margin.
  All of them rest on the step identity \<open>F_rec_step\<close>. The root theory transfers
  them to the program through the evaluator's correctness.
\<close>

lemma F_rec_weighted_step:
  assumes "0 \<le> k" "k \<le> n" "n \<noteq> 1"
  shows "(of_int k + 1) * (F_rec n k - F_rec n (k + 1)) = F_rec (n - 1) (k - 1)"
proof -
  have "(of_int k + 1 :: rat) \<noteq> 0"
    using assms(1) by linarith
  moreover have "F_rec n k - F_rec n (k + 1) = F_rec (n - 1) (k - 1) / (of_int k + 1)"
    using F_rec_step [OF assms] by simp
  ultimately show ?thesis
    by simp
qed

lemma F_rec_nonpos:
  assumes "n \<le> 0"
  shows "F_rec n k = 0"
proof (cases "k < 0 \<or> n < k")
  case True
  then show ?thesis by auto
next
  case False
  with assms have "n = 0" "k = 0"
    by auto
  then show ?thesis
    by (simp add: F_rec_sum)
qed

lemma F_rec_row_sum:
  assumes "1 \<le> N"
  shows "(\<Sum>K\<le>N. F_rec (int N) (int K)) = 1"
  using assms
proof (induction N rule: nat_induct_at_least)
  case base
  show ?case
    by (simp add: atMost_Suc)
next
  case (Suc N)
  let ?a = "\<lambda>K. F_rec (int (Suc N)) (int K)"
  have diff: "(of_nat K + 1) * (?a K - ?a (Suc K)) = F_rec (int N) (int K - 1)"
    if "K < Suc (Suc N)" for K
    using F_rec_weighted_step [of "int K" "int (Suc N)"] that Suc.hyps by (simp add: add.commute)
  have "(\<Sum>K<Suc (Suc N). ?a K)
      = (\<Sum>K<Suc (Suc N). (of_nat K + 1) * (?a K - ?a (Suc K)))
        + of_nat (Suc (Suc N)) * ?a (Suc (Suc N))"
    using sum_weighted_differences [of ?a "Suc (Suc N)"] by simp
  also have "?a (Suc (Suc N)) = 0"
    by simp
  also have "(\<Sum>K<Suc (Suc N). (of_nat K + 1) * (?a K - ?a (Suc K)))
      = (\<Sum>K<Suc (Suc N). F_rec (int N) (int K - 1))"
    by (intro sum.cong refl diff) simp
  also have "\<dots> = (\<Sum>K<Suc N. F_rec (int N) (int K))"
    by (subst sum.lessThan_Suc_shift) simp
  also have "\<dots> = 1"
    using Suc.IH by (simp add: lessThan_Suc_atMost)
  finally show ?case
    by (simp add: lessThan_Suc_atMost)
qed

lemma F_rec_mono_step:
  assumes "0 \<le> k"
  shows "F_rec n (k + 1) \<le> F_rec n k"
proof (cases "n < k \<or> n = 1")
  case True
  with assms show ?thesis by auto
next
  case False
  then show ?thesis
    using assms F_rec_step [of k n] F_rec_nonneg [of "n - 1" "k - 1"] by simp
qed

lemma F_rec_antimono:
  assumes "0 \<le> j" "j \<le> k"
  shows "F_rec n k \<le> F_rec n j"
  using assms(2)
proof (induction k rule: int_ge_induct)
  case base
  show ?case by simp
next
  case (step i)
  with assms(1) F_rec_mono_step [of i n] show ?case by simp
qed

lemma F_rec_first_two:
  "F_rec n 0 = F_rec n 1"
proof (cases "n \<le> 0 \<or> n = 1")
  case True
  then show ?thesis by (auto simp: F_rec_nonpos)
next
  case False
  then show ?thesis
    using F_rec_step [of 0 n] by simp
qed

lemma F_rec_le_half:
  "F_rec n k \<le> 1 / 2"
proof (cases "n \<le> 0 \<or> k < 0")
  case True
  then show ?thesis by (auto simp: F_rec_nonpos)
next
  case False
  define N where "N = nat n"
  with False have N: "n = int N" "1 \<le> N"
    by auto
  have "(\<Sum>K\<in>{0, 1}. F_rec n (int K)) \<le> (\<Sum>K\<le>N. F_rec n (int K))"
    using N by (intro sum_mono2) (auto simp: F_rec_nonneg)
  then have "2 * F_rec n 0 \<le> 1"
    using F_rec_row_sum [OF N(2)] F_rec_first_two [of n] N(1) by simp
  moreover have "F_rec n k \<le> F_rec n 0"
    using False by (intro F_rec_antimono) auto
  ultimately show ?thesis
    by simp
qed

end
