(* ===== verification/Spec2Isabelle.thy ===== *)
theory Spec2Isabelle
  imports Program Distribution
begin

text \<open>
  \<^bold>\<open>A verification development for \<^verbatim>\<open>src/Dynamic Interval/solution.js\<close>.\<close>

  \<^medskip>\<^bold>\<open>The program.\<close> One JavaScript function \<^verbatim>\<open>F(n, k, dp = {})\<close>
  (lines 1--14) evaluates the recurrence
  \<open>F(n, k) = \<Sum>i = k..n. 1/(i+1) * F(n-1, i-1)\<close> with two guards (line 2:
  \<open>k < 0\<close> or \<open>k > n\<close> gives 0; line 3: \<open>n = 1\<close> gives 1/2 for \<open>k \<in> {0, 1}\<close>)
  and memoises results in a table \<^verbatim>\<open>dp[n][k]\<close> (an object of objects) that is
  passed down the recursion: line 5 creates the row, line 6 returns a cached entry,
  lines 8--11 run the loop, line 12 stores the sum. Lines 16--18 call it twice, each
  call with its own fresh table (a JavaScript default parameter is evaluated at every
  call), and print the results.

  \<^medskip>\<^bold>\<open>Theories.\<close>
  \<^item> \<open>Prelude\<close>: the types of the table (\<open>memo\<close>, \<open>memo_row\<close>), the
    collection \<open>memo_simps\<close>, and shared facts on finite sums (summation by parts,
    the loop's index list) and on enclosures.
  \<^item> \<open>Recurrence\<close>: \<open>F_rec\<close>, the recurrence of the spec (section 4.1) as a pure
    function, total by the measure \<open>nat (n + 1)\<close>; its equations by case and the
    step identity \<open>F(n, k) = F(n, k+1) + F(n-1, k-1)/(k+1)\<close>. It is the abstract
    specification the code is proved against.
  \<^item> \<open>Memo_Cache\<close>: the table as nested partial maps and its three operations
    \<open>ensure_row\<close> (line 5), \<open>cache_get\<close> (line 6) and \<open>cache_put\<close> (line 12),
    with the JavaScript \<^verbatim>\<open>TypeError\<close> of an access through a missing row as the
    \<open>Inl\<close> branch; the abstraction \<open>flat\<close> to a map keyed by \<open>(n, k)\<close>; the memo
    invariant \<open>memo_consistent f\<close> (every entry is \<open>f\<close> at its key, as in the
    consistency relation of memoisation frameworks) and the extension order
    \<open>memo_le\<close>.
  \<^item> \<open>Evaluator\<close>: \<open>F_js\<close> (the body of \<^verbatim>\<open>F\<close>) and \<open>F_loop\<close> (its
    \<^verbatim>\<open>for\<close> loop) as one mutually recursive definition threading the table, in
    the source's order of guards and statements; \<open>F_call\<close>, a top-level call with the
    default empty table; \<open>F_calls\<close>, a caller that reuses one table (from the spec).
    Termination is proved for all integer arguments by the measures
    \<open>2 * nat n + 3\<close> (a call that passes the guards) / \<open>2 * nat n + 2\<close> (the loop)
    and then \<open>n + 1 - i\<close>; no fuel is needed.
  \<^item> \<open>Distribution\<close>: facts of the recurrence: values lie in \<open>[0, 1/2]\<close>, rows
    do not increase in \<open>k\<close>, \<open>F(n,0) = F(n,1)\<close>, rows \<open>n \<le> 0\<close> are 0 (with the
    exact row sum 1 as a lemma on the way to the bound).
  \<^item> \<open>Table\<close>: certified bottom-up evaluation: rows scaled by \<open>c\<close> and rounded down
    with integer floor division, proved to be lower bounds of \<open>c * F\<close>; with
    \<open>c = \<plusminus>2^60\<close> they enclose \<open>F(21, 3)\<close> and \<open>F(13, 9)\<close> within about
    \<open>10\<^sup>-\<^sup>1\<^sup>6\<close>. They are an evaluation device, not code: the exact values have
    ninety-digit numerators, out of reach of the kernel's rational arithmetic, while
    the integer rows evaluate by \<open>code_simp\<close> in a second.
  \<^item> \<open>Program\<close>: \<open>main_program\<close>, lines 16--18.
  \<^item> this theory: the properties that combine the evaluator with the facts of the
    recurrence, stated of the program's \<open>F_call\<close>.

  \<^medskip>\<^bold>\<open>What is proved.\<close> The evaluator computes the recurrence for every integer
  pair, with the default table (C1) and with any consistent table, which it keeps
  consistent and only extends (C2); it never raises and always terminates (C3). Every
  returned value lies in \<open>[0, 1/2]\<close> (C4). The table's contract: every evaluated pair is
  stored (C5), a stored entry is returned at once even if wrong (C6), guard and base
  paths leave the table alone (C7), and a call from the empty table creates entries
  only at keys \<open>0 \<le> j \<le> m \<le> n\<close>, \<open>m \<noteq> 1\<close>, at most \<open>(n+1)\<^sup>2\<close> of them (C8).
  For \<open>n \<le> 0\<close> the code returns 0 and terminates (C9). Values do not increase in
  \<open>k\<close> (C10) and \<open>F(n,0) = F(n,1)\<close> (C11). The program's two outputs are within the
  spec's tolerances of the decimals of the source comments (C12). The table operations
  refine a flat map keyed by \<open>(n, k)\<close> (C13).

  Which properties are stated of the program: the model computes exactly, so only
  properties that also hold of the program's double-precision values are claimed: the
  table's behaviour (C1--C3, C5--C9, C13), which does not depend on the arithmetic;
  C4, C10 and C11, which rounding to nearest preserves (rounding is monotone, keeps 0
  and keeps non-negative sums non-negative, and the bound 1/2 has a wide margin); and
  C12, whose tolerances are nine orders of magnitude above the rounding error of about
  twenty double operations. Exact identities of the recurrence (a row summing to 1,
  \<open>F(2, 0) = 5/12\<close>, \<open>F(n, n) = 1/(n+1)!\<close>) are not properties of the program, whose
  doubles miss them by a few units in the last place, and are not claimed.

  \<^medskip>\<^bold>\<open>Modelling choices and what is not modelled.\<close> Arguments and loop indices
  are JavaScript numbers used as whole numbers; they are \<^typ>\<open>int\<close>, exact below
  \<open>2\<^sup>5\<^sup>3\<close>, which any call that finishes in practice respects. The values are exact
  rationals: the program's IEEE-754 double arithmetic (the rounding of
  \<^verbatim>\<open>1 / (i + 1)\<close>, of the product and of every \<^verbatim>\<open>sum +=\<close> on line 10) is not
  modelled, since no floating-point theory is available among the allowed libraries.
  Non-integer or non-number
  arguments, the stack depth of the recursion (about \<open>n\<close> frames) and the text
  formatting of \<^verbatim>\<open>console.log\<close> are not modelled. The JavaScript object keys
  \<^verbatim>\<open>dp[n]\<close> are strings; distinct integers give distinct keys, so a map on
  \<^typ>\<open>int\<close> is faithful.

  \<^medskip>\<^bold>\<open>Plan of the development.\<close> Done: the recurrence, the table, the evaluator
  with its invariants and totality, the facts of the recurrence, the program's top
  level with certified enclosures. Next, in this order:
  \<^enum> IEEE-754 binary64: an executable round-to-nearest-ties-to-even on dyadic values
    (integer mantissa and exponent, subnormals included), proved equal to the
    specification "the closest double, ties to an even mantissa"; the evaluator made
    generic in the number operations the code uses (the literals 0 and 0.5,
    \<^verbatim>\<open>i + 1\<close>, \<^verbatim>\<open>/\<close>, \<^verbatim>\<open>*\<close>, \<^verbatim>\<open>+=\<close>), so that the memo proofs hold
    for both instances, exact rationals and binary64 in the source's order of
    operations on line 10; the exact doubles the two calls print; the monotonicity
    and bound facts (C4, C10, C11) proved of the double instance itself; a forward
    error bound of the double evaluator against \<open>F_rec\<close>.
  \<^enum> A traced table that logs each hit, miss and store (the tracing-memory idea of
    memoisation frameworks), proved to project to \<open>F_js\<close>, to count one store per
    new entry, and so to bound the loop iterations of a call tree by \<open>(n+1)\<^sup>3\<close>.
  \<^enum> Reachable tables as an inductive set closed under calls, with the memo invariant
    and the key-shape invariant proved by rule induction.
\<close>

section \<open>Properties of the values the program returns\<close>

text \<open>
  C4. Every value the program returns lies in \<open>[0, 1/2]\<close>; in particular it is a
  probability, as the spec requires (section 4.1, guarantees).
\<close>

theorem F_call_bounds:
  "\<exists>v. F_call n k = Inr v \<and> 0 \<le> v \<and> v \<le> 1 / 2"
  using F_rec_nonneg [of n k] F_rec_le_half [of n k] by simp

text \<open>
  C10. For fixed \<open>n\<close> the returned values do not increase with \<open>k \<ge> 0\<close>.
\<close>

theorem F_call_nonincreasing:
  assumes "0 \<le> j" "j \<le> k"
  shows "projr (F_call n k) \<le> projr (F_call n j)"
  using F_rec_antimono [OF assms] by simp

theorem F_call_nonincreasing_witness:
  "0 \<le> (1::int) \<and> (1::int) \<le> 3 \<and> projr (F_call 4 3) \<le> projr (F_call 4 1)"
  using F_call_nonincreasing [of 1 3 4] by simp

text \<open>
  C11. \<^verbatim>\<open>F(n, 0)\<close> and \<^verbatim>\<open>F(n, 1)\<close> are equal for every \<open>n\<close>: the first term of the
  loop for \<open>k = 0\<close> is \<^verbatim>\<open>F(n - 1, -1)\<close>, which the guard makes 0.
\<close>

theorem F_call_first_two_equal:
  "F_call n 0 = F_call n 1"
  using F_rec_first_two [of n] by simp

text \<open>
  C9. For \<open>n \<le> 0\<close> the program returns 0 for every \<open>k\<close>. In particular
  \<^verbatim>\<open>F(0, 0)\<close> passes both guards, runs the loop once with the call
  \<^verbatim>\<open>F(-1, -1)\<close>, which the \<open>k < 0\<close> guard answers with 0, and returns 0: it does not
  descend forever.
\<close>

theorem F_call_nonpositive_n:
  assumes "n \<le> 0"
  shows "F_call n k = Inr 0"
  using F_rec_nonpos [OF assms] by simp

theorem F_call_nonpositive_n_witness:
  "(0::int) \<le> 0 \<and> F_call 0 0 = Inr 0"
  using F_call_nonpositive_n [of 0 0] by simp

end
